theory Spec2Isabelle
  imports Main "HOL-Library.Word"
begin

section \<open>Error chains: \<open>BaseError.walk\<close> (src/errors/base.ts)\<close>

text \<open>
  The module-level \<open>walk(err: unknown, fn?)\<close> inspects an arbitrary JavaScript value.
  The model keeps the three things the function looks at: whether the value is falsy
  (\<open>undefined\<close>, \<open>null\<close>), whether it is a non-object (\<open>typeof err !== 'object'\<close>), and
  whether an object has a \<open>cause\<close> property (\<open>'cause' in err\<close>) and what it holds.
  The parameter \<open>'a\<close> stands for everything else the value carries.
  A datatype value is finite, so every cause chain that can be written here is finite;
  this is the hypothesis under which the source's recursion returns at all.
\<close>

datatype 'a jsval =
    JsUndefined
  | JsNull
  | JsPrimitive 'a
  | JsObject 'a "'a jsval option"

text \<open>\<open>fn?.(err)\<close>: \<open>undefined\<close> (falsy) when no predicate was passed.\<close>

fun optional_call :: "('a jsval \<Rightarrow> bool) option \<Rightarrow> 'a jsval \<Rightarrow> bool" where
  "optional_call None err = False"
| "optional_call (Some fn) err = fn err"

text \<open>
  \<^verbatim>\<open>
  function walk(err, fn) {
    if (fn?.(err)) return err;
    if (err && typeof err === 'object' && 'cause' in err) return walk(err.cause, fn);
    return fn ? null : err;
  }
  \<close>
\<close>

fun walk :: "'a jsval \<Rightarrow> ('a jsval \<Rightarrow> bool) option \<Rightarrow> 'a jsval" where
  "walk (JsObject a (Some c)) fn =
     (if optional_call fn (JsObject a (Some c)) then JsObject a (Some c) else walk c fn)"
| "walk err fn =
     (if optional_call fn err then err
      else (case fn of Some _ \<Rightarrow> JsNull | None \<Rightarrow> err))"

text \<open>The method \<open>BaseError.walk(fn?)\<close> is \<open>walk(this, fn)\<close>; \<open>this\<close> is an object.\<close>

definition BaseError_walk ::
  "'a \<Rightarrow> 'a jsval option \<Rightarrow> ('a jsval \<Rightarrow> bool) option \<Rightarrow> 'a jsval" where
  "BaseError_walk this_fields this_cause fn = walk (JsObject this_fields this_cause) fn"

text \<open>The chain of \<open>cause\<close> properties, outermost value first.\<close>

fun has_cause :: "'a jsval \<Rightarrow> bool" where
  "has_cause (JsObject a (Some c)) = True"
| "has_cause v = False"

fun cause_chain :: "'a jsval \<Rightarrow> 'a jsval list" where
  "cause_chain (JsObject a (Some c)) = JsObject a (Some c) # cause_chain c"
| "cause_chain v = [v]"

section \<open>Data model of the withdrawal status resolver\<close>

type_synonym uint256 = "256 word"
type_synonym bytes32 = "256 word"
type_synonym address = "160 word"
type_synonym byte = "8 word"

text \<open>
  A withdrawal as the extractor \<open>getWithdrawals\<close> yields it. The source's field \<open>value\<close>
  is written \<open>value_field\<close>. \<open>Address\<close> and \<open>Hex\<close> are hex strings in the source; they
  are modelled by the values they denote (a 160-bit address, a byte sequence), and
  \<open>bigint\<close> fields typed \<open>uint256\<close> by 256-bit words.
\<close>

record withdrawal =
  nonce :: uint256
  sender :: address
  target :: address
  value_field :: uint256
  gasLimit :: uint256
  data :: "byte list"
  withdrawalHash :: bytes32

record receipt =
  transactionHash :: bytes32
  blockNumber :: uint256
  logs :: "nat list"

datatype status =
    WaitingToProve
  | ReadyToProve
  | WaitingToFinalize
  | ReadyToFinalize
  | Finalized

text \<open>
  An error object raised by a collaborator (\<open>readContract\<close>, \<open>getL2Output\<close>, ...). The
  fields are the ones the source reads: \<open>name\<close>, \<open>message\<close>, whether the object is an
  \<open>instanceof ContractFunctionRevertedError\<close>, \<open>data?.args\<close> (\<open>None\<close> when \<open>data\<close> or
  \<open>args\<close> is undefined) and \<open>cause\<close> (\<open>None\<close> when undefined).
\<close>

datatype js_error = JsError
  (err_name: string)
  (err_message: string)
  (err_is_reverted: bool)
  (err_data_args: "string list option")
  (err_cause: "js_error option")

text \<open>
  What a call can throw: an error of a collaborator, passed on unchanged; the errors the
  source constructs itself; and the \<open>TypeError\<close> of a property read on \<open>undefined\<close>.
\<close>

datatype error =
    Thrown js_error
  | ReceiptContainsNoWithdrawalsError bytes32
  | PlainError string
  | TypeError

datatype ('e, 'a) settled = Fulfilled 'a | Rejected 'e

text \<open>\<open>Promise.allSettled\<close> turns the outcome of each promise into a result object.\<close>

fun settle :: "js_error + 'a \<Rightarrow> (error, 'a) settled" where
  "settle (Inl e) = Rejected (Thrown e)"
| "settle (Inr v) = Fulfilled v"

text \<open>A \<open>PromiseSettledResult\<close> is an object, and every object is truthy.\<close>

fun truthy_object :: "('e, 'a) settled \<Rightarrow> bool" where
  "truthy_object (Fulfilled v) = True"
| "truthy_object (Rejected e) = True"

datatype abi = portalAbi | portal2Abi

record version =
  major :: int
  minor :: int
  patch :: int

record l2_output =
  outputIndex :: uint256
  outputRoot :: bytes32
  output_timestamp :: uint256
  output_l2BlockNumber :: uint256

record game =
  game_index :: uint256
  game_metadata :: bytes32
  game_timestamp :: "64 word"
  game_rootClaim :: bytes32
  game_extraData :: "byte list"

text \<open>
  The collaborators of the three source files, none of which is defined in them: the
  withdrawal extractor, the hash function, and the contract reads. Each read is a function
  of the arguments the source passes and yields the error it rejects with or its value.
  \<open>provenWithdrawals\<close> yields the first two components of the contract's tuple, the
  second being the timestamp (the source reads no other); \<open>getTimeToFinalize\<close> and
  \<open>getTimeToNextL2Output\<close> yield their \<open>seconds\<close>.
\<close>

record collaborators =
  getWithdrawals :: "receipt \<Rightarrow> withdrawal list"
  keccak256 :: "byte list \<Rightarrow> bytes32"
  getPortalVersion :: "js_error + version"
  getL2Output :: "uint256 \<Rightarrow> js_error + l2_output"
  getTimeToFinalize :: "bytes32 \<Rightarrow> js_error + int"
  getTimeToNextL2Output :: "js_error + int"
  provenWithdrawals :: "abi \<Rightarrow> address \<Rightarrow> bytes32 \<Rightarrow> js_error + (uint256 \<times> nat)"
  finalizedWithdrawals :: "abi \<Rightarrow> address \<Rightarrow> bytes32 \<Rightarrow> js_error + bool"
  checkWithdrawal :: "address \<Rightarrow> bytes32 \<Rightarrow> js_error + unit"
  gameCount :: "address \<Rightarrow> js_error + nat"
  respectedGameType :: "address \<Rightarrow> js_error + nat"
  findLatestGames :: "address \<Rightarrow> nat \<Rightarrow> nat \<Rightarrow> nat \<Rightarrow> js_error + game list"
  decodeAbiParameters_uint256 :: "byte list \<Rightarrow> js_error + uint256"

text \<open>The contract reads a call issues, in the order it issues them.\<close>

datatype read =
    Read_getPortalVersion
  | Read_getL2Output uint256
  | Read_provenWithdrawals abi address bytes32
  | Read_finalizedWithdrawals abi address bytes32
  | Read_checkWithdrawal address bytes32
  | Read_getTimeToFinalize bytes32

record target_chain =
  contracts_portal :: "(nat \<times> address) list"
  contracts_disputeGameFactory :: "(nat \<times> address) list"

text \<open>
  The \<open>parameters\<close> object together with \<open>client.chain\<close>. A chain is identified by its
  \<open>id\<close>; \<open>targetChain.contracts.portal\<close> is an object keyed by chain id, kept as an
  association list in key order (for \<open>Object.values(...)[0]\<close>).
\<close>

record parameters =
  p_portalAddress :: "address option"
  p_disputeGameAddress :: "address option"
  p_chain :: "nat option"
  client_chain :: "nat option"
  p_targetChain :: "target_chain option"
  p_receipt :: receipt
  p_portalVersion :: "int option"
  p_l2BlockNumber :: uint256

section \<open>\<open>hashWithdrawal\<close>\<close>

text \<open>Big-endian bytes of a number, in a field of \<open>k\<close> bytes.\<close>

fun be_bytes :: "nat \<Rightarrow> nat \<Rightarrow> byte list" where
  "be_bytes 0 n = []"
| "be_bytes (Suc k) n = be_bytes k (n div 256) @ [of_nat (n mod 256)]"

datatype abi_value =
    AbiUint256 uint256
  | AbiAddress address
  | AbiBytes "byte list"

text \<open>
  Modelled from the spec: the tail of a parameter in the ABI encoding, a part of the
  missing \<open>encodeAbiParameters\<close> below. For \<open>bytes\<close>: the length as a word, the bytes,
  zero padding to a multiple of 32; nothing for \<open>uint256\<close> and \<open>address\<close>.
\<close>

fun abi_tail :: "abi_value \<Rightarrow> byte list" where
  "abi_tail (AbiBytes d) =
     be_bytes 32 (length d) @ d @ replicate ((32 - length d mod 32) mod 32) 0"
| "abi_tail v = []"

text \<open>
  Modelled from the spec: the heads of the ABI encoding, a part of the missing
  \<open>encodeAbiParameters\<close> below. One 32-byte word per parameter: the value for \<open>uint256\<close>
  and \<open>address\<close>, the offset of its tail for \<open>bytes\<close>.
\<close>

fun abi_heads :: "nat \<Rightarrow> abi_value list \<Rightarrow> byte list" where
  "abi_heads off [] = []"
| "abi_heads off (AbiUint256 w # vs) = be_bytes 32 (unat w) @ abi_heads off vs"
| "abi_heads off (AbiAddress a # vs) = be_bytes 32 (unat a) @ abi_heads off vs"
| "abi_heads off (AbiBytes d # vs) =
     be_bytes 32 off @ abi_heads (off + length (abi_tail (AbiBytes d))) vs"

text \<open>
  Modelled from the spec: \<open>encodeAbiParameters\<close> is imported from \<open>~viem/index.js\<close> and
  is not among the source files; the spec names it "ABI parameter encoding", and the
  source's comment on \<open>hashWithdrawal\<close> reads
  \<open>keccak256(abi.encode(_tx.nonce, _tx.sender, _tx.target, _tx.value, _tx.gasLimit, _tx.data))\<close>.
  It is the contract ABI encoding of a tuple: the heads, then the tails.
\<close>

definition encodeAbiParameters :: "abi_value list \<Rightarrow> byte list" where
  "encodeAbiParameters vs = abi_heads (32 * length vs) vs @ concat (map abi_tail vs)"

text \<open>
  \<^verbatim>\<open>
  hashWithdrawal = ({ nonce, sender, target, value, gasLimit, data }) =>
    keccak256(encodeAbiParameters([uint256, address, address, uint256, uint256, bytes],
                                  [nonce, sender, target, value, gasLimit, data]))
  \<close>
  \<open>keccak256\<close> is the collaborator passed in.
\<close>

definition withdrawal_encoding :: "withdrawal \<Rightarrow> byte list" where
  "withdrawal_encoding w =
     encodeAbiParameters
       [AbiUint256 (nonce w), AbiAddress (sender w), AbiAddress (target w),
        AbiUint256 (value_field w), AbiUint256 (gasLimit w), AbiBytes (data w)]"

definition hashWithdrawal :: "(byte list \<Rightarrow> bytes32) \<Rightarrow> withdrawal \<Rightarrow> bytes32" where
  "hashWithdrawal keccak w = keccak (withdrawal_encoding w)"

text \<open>The six fields \<open>hashWithdrawal\<close> destructures.\<close>

definition six_fields ::
  "withdrawal \<Rightarrow> uint256 \<times> address \<times> address \<times> uint256 \<times> uint256 \<times> byte list" where
  "six_fields w = (nonce w, sender w, target w, value_field w, gasLimit w, data w)"

section \<open>The withdrawal status resolver\<close>

definition finalizedWithdrawalMessages :: "string list" where
  "finalizedWithdrawalMessages =
    [''OptimismPortal: dispute game has been blacklisted'',
     ''OptimismPortal: withdrawal has not been proven yet'',
     ''OptimismPortal: withdrawal timestamp less than dispute game creation timestamp'',
     ''OptimismPortal: proven withdrawal has not matured yet'',
     ''OptimismPortal: output proposal has not been finalized yet'',
     ''OptimismPortal: invalid game type'',
     ''OptimismPortal: dispute game created before respected game type was updated'',
     ''OptimismPortal: output proposal in air-gap'',
     ''OptimismPortal: withdrawal has already been finalized'']"

definition not_proposed_reason :: string where
  "not_proposed_reason =
     ''L2OutputOracle: cannot get output for a block that has not been proposed''"

text \<open>\<open>const { chain = client.chain } = parameters\<close>\<close>

definition chain_or_client :: "parameters \<Rightarrow> nat option" where
  "chain_or_client p = (case p_chain p of Some c \<Rightarrow> Some c | None \<Rightarrow> client_chain p)"

text \<open>
  \<^verbatim>\<open>
  const portalAddress = (() => {
    if (parameters.portalAddress) return parameters.portalAddress
    if (chain) return targetChain!.contracts.portal[chain.id].address
    return Object.values(targetChain!.contracts.portal)[0].address
  })()
  \<close>
  A property read on \<open>undefined\<close> throws \<open>TypeError\<close>.
\<close>

definition contract_address ::
  "address option \<Rightarrow> nat option \<Rightarrow> (nat \<times> address) list option \<Rightarrow> error + address" where
  "contract_address explicit chain contracts =
     (case explicit of
        Some a \<Rightarrow> Inr a
      | None \<Rightarrow>
          (case contracts of
             None \<Rightarrow> Inl TypeError
           | Some cs \<Rightarrow>
               (case chain of
                  Some cid \<Rightarrow>
                    (case map_of cs cid of None \<Rightarrow> Inl TypeError | Some a \<Rightarrow> Inr a)
                | None \<Rightarrow>
                    (case cs of [] \<Rightarrow> Inl TypeError | (k, a) # rest \<Rightarrow> Inr a))))"

definition portalAddress :: "nat option \<Rightarrow> parameters \<Rightarrow> error + address" where
  "portalAddress chain p =
     contract_address (p_portalAddress p) chain (map_option contracts_portal (p_targetChain p))"

text \<open>\<open>error.cause instanceof ContractFunctionRevertedError\<close>\<close>

fun cause_is_reverted :: "error \<Rightarrow> bool" where
  "cause_is_reverted (Thrown e) =
     (case err_cause e of Some c \<Rightarrow> err_is_reverted c | None \<Rightarrow> False)"
| "cause_is_reverted e = False"

text \<open>\<open>error.cause?.data?.args?.[0]\<close>, \<open>None\<close> for \<open>undefined\<close>\<close>

fun cause_data_arg0 :: "error \<Rightarrow> string option" where
  "cause_data_arg0 (Thrown e) =
     (case err_cause e of
        Some c \<Rightarrow> (case err_data_args c of Some (x # xs) \<Rightarrow> Some x | _ \<Rightarrow> None)
      | None \<Rightarrow> None)"
| "cause_data_arg0 e = None"

text \<open>
  The value of the fourth promise of the v3 path:
  \<^verbatim>\<open>
  readContract(client, {... functionName: 'checkWithdrawal', args: [hashWithdrawal(withdrawal)]})
    .then(() => true)
    .catch((e) => {
      if (e.name !== 'ContractFunctionExecutionError') throw e
      if (!finalizedWithdrawalMessages.includes(e.cause.message)) throw e
      return e
    })
  \<close>
\<close>

datatype ready = ReadyTrue | ReadyError js_error

definition checkWithdrawal_then_catch :: "js_error + unit \<Rightarrow> (error, ready) settled" where
  "checkWithdrawal_then_catch r =
     (case r of
        Inr u \<Rightarrow> Fulfilled ReadyTrue
      | Inl e \<Rightarrow>
          if err_name e \<noteq> ''ContractFunctionExecutionError'' then Rejected (Thrown e)
          else (case err_cause e of
                  None \<Rightarrow> Rejected TypeError
                | Some c \<Rightarrow>
                    if err_message c \<notin> set finalizedWithdrawalMessages then Rejected (Thrown e)
                    else Fulfilled (ReadyError e)))"

text \<open>
  The statements of \<open>getWithdrawalStatusV3\<close> after \<open>await Promise.allSettled([...])\<close>.
  The last line of the source tests the result object \<open>readyToFinalize\<close> itself.
\<close>

definition classifyV3 ::
  "(error, l2_output) settled \<Rightarrow> (error, uint256 \<times> nat) settled \<Rightarrow> (error, bool) settled
   \<Rightarrow> (error, ready) settled \<Rightarrow> error + status" where
  "classifyV3 outputResult proveResult finalizedResult readyToFinalize =
     (case outputResult of
        Rejected error \<Rightarrow>
          if cause_is_reverted error \<and> cause_data_arg0 error = Some not_proposed_reason
          then Inr WaitingToProve
          else Inl error
      | Fulfilled out \<Rightarrow>
     (case proveResult of
        Rejected reason \<Rightarrow> Inl reason
      | Fulfilled proven \<Rightarrow>
     (case finalizedResult of
        Rejected reason \<Rightarrow> Inl reason
      | Fulfilled finalized \<Rightarrow>
     (case readyToFinalize of
        Rejected reason \<Rightarrow> Inl reason
      | Fulfilled ready_value \<Rightarrow>
          if snd proven = 0 then Inr ReadyToProve
          else if finalized then Inr Finalized
          else if truthy_object readyToFinalize then Inr ReadyToFinalize
          else Inr WaitingToFinalize))))"

definition getWithdrawalStatusV3 ::
  "collaborators \<Rightarrow> parameters \<Rightarrow> (error + status) \<times> read list" where
  "getWithdrawalStatusV3 env p =
     (case portalAddress (chain_or_client p) p of
        Inl err \<Rightarrow> (Inl err, [])
      | Inr addr \<Rightarrow>
     (case getWithdrawals env (p_receipt p) of
        [] \<Rightarrow> (Inl (ReceiptContainsNoWithdrawalsError (transactionHash (p_receipt p))), [])
      | withdrawal # others \<Rightarrow>
          (classifyV3
             (settle (getL2Output env (blockNumber (p_receipt p))))
             (settle (provenWithdrawals env portal2Abi addr (withdrawalHash withdrawal)))
             (settle (finalizedWithdrawals env portal2Abi addr (withdrawalHash withdrawal)))
             (checkWithdrawal_then_catch
                (checkWithdrawal env addr (hashWithdrawal (keccak256 env) withdrawal))),
           [Read_getL2Output (blockNumber (p_receipt p)),
            Read_provenWithdrawals portal2Abi addr (withdrawalHash withdrawal),
            Read_finalizedWithdrawals portal2Abi addr (withdrawalHash withdrawal),
            Read_checkWithdrawal addr (hashWithdrawal (keccak256 env) withdrawal)])))"

text \<open>The statements of \<open>getWithdrawalStatusV2\<close> after \<open>await Promise.allSettled([...])\<close>.\<close>

definition classifyV2 ::
  "(error, l2_output) settled \<Rightarrow> (error, uint256 \<times> nat) settled \<Rightarrow> (error, bool) settled
   \<Rightarrow> (error, int) settled \<Rightarrow> error + status" where
  "classifyV2 outputResult proveResult finalizedResult timeToFinalizeResult =
     (case outputResult of
        Rejected error \<Rightarrow>
          if cause_is_reverted error \<and> cause_data_arg0 error = Some not_proposed_reason
          then Inr WaitingToProve
          else Inl error
      | Fulfilled out \<Rightarrow>
     (case proveResult of
        Rejected reason \<Rightarrow> Inl reason
      | Fulfilled proven \<Rightarrow>
     (case finalizedResult of
        Rejected reason \<Rightarrow> Inl reason
      | Fulfilled finalized \<Rightarrow>
     (case timeToFinalizeResult of
        Rejected reason \<Rightarrow> Inl reason
      | Fulfilled seconds \<Rightarrow>
          if snd proven = 0 then Inr ReadyToProve
          else if finalized then Inr Finalized
          else if seconds > 0 then Inr WaitingToFinalize
          else Inr ReadyToFinalize))))"

definition getWithdrawalStatusV2 ::
  "collaborators \<Rightarrow> parameters \<Rightarrow> (error + status) \<times> read list" where
  "getWithdrawalStatusV2 env p =
     (case portalAddress (chain_or_client p) p of
        Inl err \<Rightarrow> (Inl err, [])
      | Inr addr \<Rightarrow>
     (case getWithdrawals env (p_receipt p) of
        [] \<Rightarrow> (Inl (ReceiptContainsNoWithdrawalsError (transactionHash (p_receipt p))), [])
      | withdrawal # others \<Rightarrow>
          (classifyV2
             (settle (getL2Output env (blockNumber (p_receipt p))))
             (settle (provenWithdrawals env portalAbi addr (withdrawalHash withdrawal)))
             (settle (finalizedWithdrawals env portalAbi addr (withdrawalHash withdrawal)))
             (settle (getTimeToFinalize env (withdrawalHash withdrawal))),
           [Read_getL2Output (blockNumber (p_receipt p)),
            Read_provenWithdrawals portalAbi addr (withdrawalHash withdrawal),
            Read_finalizedWithdrawals portalAbi addr (withdrawalHash withdrawal),
            Read_getTimeToFinalize (withdrawalHash withdrawal)])))"

text \<open>
  \<^verbatim>\<open>
  const portalVersion =
    parameters.portalVersion ?? (await getPortalVersion(client, parameters)).major
  if (portalVersion === 2) return getWithdrawalStatusV2(client, parameters)
  return getWithdrawalStatusV3(client, parameters)
  \<close>
\<close>

definition by_version ::
  "collaborators \<Rightarrow> parameters \<Rightarrow> int \<Rightarrow> (error + status) \<times> read list" where
  "by_version env p portalVersion =
     (if portalVersion = 2 then getWithdrawalStatusV2 env p else getWithdrawalStatusV3 env p)"

definition getWithdrawalStatus ::
  "collaborators \<Rightarrow> parameters \<Rightarrow> (error + status) \<times> read list" where
  "getWithdrawalStatus env p =
     (case p_portalVersion p of
        Some portalVersion \<Rightarrow> by_version env p portalVersion
      | None \<Rightarrow>
          (case getPortalVersion env of
             Inl e \<Rightarrow> (Inl (Thrown e), [Read_getPortalVersion])
           | Inr v \<Rightarrow>
               (fst (by_version env p (major v)),
                Read_getPortalVersion # snd (by_version env p (major v)))))"

subsection \<open>The second \<open>getWithdrawalStatus\<close> (src/unnamed/part_000)\<close>

text \<open>The \<open>switch (revertMessage)\<close>, its \<open>default\<close> included.\<close>

definition switch_revertMessage :: "string \<Rightarrow> error + status" where
  "switch_revertMessage revertMessage =
     (if revertMessage = ''OptimismPortal: withdrawal has not been proven yet''
        then Inr ReadyToProve
      else if revertMessage = ''OptimismPortal: withdrawal has already been finalized''
        then Inr Finalized
      else if revertMessage \<in> set
          [''OptimismPortal: output proposal has not been finalized yet'',
           ''OptimismPortal: proven withdrawal has not matured yet'',
           ''OptimismPortal: invalid game type'',
           ''OptimismPortal: output proposal in air-gap'',
           ''OptimismPortal: dispute game has been blacklisted'',
           ''OptimismPortal: withdrawal timestamp less than dispute game creation timestamp'',
           ''OptimismPortal: dispute game created before respected game type was updated'']
        then Inr WaitingToFinalize
      else Inl (PlainError
             (''Unknown revert message '' @ revertMessage @ '' from checkWithdrawal'')))"

text \<open>
  The first element of the array given to \<open>Promise.allSettled\<close> is
  \<open>await getPortalVersion(...)\<close>: the version is awaited while the array is being built,
  so a failing version read throws at once, before \<open>checkWithdrawal\<close> is read, and the
  test \<open>portalVersion.status === 'rejected'\<close> never holds.
\<close>

definition getWithdrawalStatus_part_000 ::
  "collaborators \<Rightarrow> parameters \<Rightarrow> (error + status) \<times> read list" where
  "getWithdrawalStatus_part_000 env p =
     (case portalAddress (chain_or_client p) p of
        Inl err \<Rightarrow> (Inl err, [])
      | Inr addr \<Rightarrow>
     (case getWithdrawals env (p_receipt p) of
        [] \<Rightarrow> (Inl (ReceiptContainsNoWithdrawalsError (transactionHash (p_receipt p))), [])
      | withdrawal # others \<Rightarrow>
     (case getPortalVersion env of
        Inl e \<Rightarrow> (Inl (Thrown e), [Read_getPortalVersion])
      | Inr portalVersion \<Rightarrow>
          (if major portalVersion = 2 then Inl (PlainError ''add me back'')
           else
             (case settle (checkWithdrawal env addr (hashWithdrawal (keccak256 env) withdrawal)) of
                Fulfilled u \<Rightarrow> Inr ReadyToFinalize
              | Rejected reason \<Rightarrow>
                  if \<not> cause_is_reverted reason then Inl reason
                  else (case cause_data_arg0 reason of
                          None \<Rightarrow> Inl reason
                        | Some revertMessage \<Rightarrow>
                            if revertMessage \<notin> set finalizedWithdrawalMessages then Inl reason
                            else switch_revertMessage revertMessage)),
           [Read_getPortalVersion,
            Read_checkWithdrawal addr (hashWithdrawal (keccak256 env) withdrawal)]))))"

text \<open>
  What the two implementations recognise as a \<open>checkWithdrawal\<close> failure from the table.
  The v3 path looks at \<open>e.name\<close> and \<open>e.cause.message\<close>, the second implementation at
  the class of \<open>cause\<close> and at \<open>cause.data.args[0]\<close>.
\<close>

definition on_allow_list :: "js_error \<Rightarrow> bool" where
  "on_allow_list e =
     (err_name e = ''ContractFunctionExecutionError'' \<and>
      (case err_cause e of
         None \<Rightarrow> False
       | Some c \<Rightarrow> err_message c \<in> set finalizedWithdrawalMessages))"

definition on_allow_list_part_000 :: "js_error \<Rightarrow> bool" where
  "on_allow_list_part_000 e =
     (cause_is_reverted (Thrown e) \<and>
      (case cause_data_arg0 (Thrown e) of
         None \<Rightarrow> False
       | Some m \<Rightarrow> m \<in> set finalizedWithdrawalMessages))"

text \<open>The output fetch failed with the "not yet proposed" revert.\<close>

definition not_yet_proposed :: "js_error \<Rightarrow> bool" where
  "not_yet_proposed e =
     (cause_is_reverted (Thrown e) \<and> cause_data_arg0 (Thrown e) = Some not_proposed_reason)"

text \<open>
  The portal version the dispatcher of \<open>getWithdrawalStatus\<close> branches on: the one the
  caller supplied, else the \<open>major\<close> of the version read; \<open>None\<close> when that read fails.
\<close>

definition version_used :: "collaborators \<Rightarrow> parameters \<Rightarrow> int option" where
  "version_used env p =
     (case p_portalVersion p of
        Some v \<Rightarrow> Some v
      | None \<Rightarrow> (case getPortalVersion env of Inl e \<Rightarrow> None | Inr v \<Rightarrow> Some (major v)))"

text \<open>A read that yields a value.\<close>

definition succeeds :: "'e + 'a \<Rightarrow> bool" where
  "succeeds r = (case r of Inl e \<Rightarrow> False | Inr v \<Rightarrow> True)"

section \<open>\<open>waitForNextL2Output\<close>\<close>

datatype wait_result = OutputFound l2_output | GameFound game uint256

datatype promise = Pending | PromiseResolved wait_result | PromiseRejected error

text \<open>
  The state the polling callback works on: the flag of the poller (\<open>unpoll\<close> clears it),
  the promise returned to the caller, and the number of callback runs so far.
\<close>

record poll_state =
  active :: bool
  promise :: promise
  ticks :: nat

definition unpoll :: "poll_state \<Rightarrow> poll_state" where
  "unpoll s = s\<lparr>active := False\<rparr>"

text \<open>
  \<open>resolve\<close> and \<open>reject\<close> of \<open>new Promise((resolve, reject) => ...)\<close>: the language settles
  a promise once, and calls on a settled promise do nothing.
\<close>

definition resolve :: "wait_result \<Rightarrow> poll_state \<Rightarrow> poll_state" where
  "resolve v s = (if promise s = Pending then s\<lparr>promise := PromiseResolved v\<rparr> else s)"

definition reject :: "error \<Rightarrow> poll_state \<Rightarrow> poll_state" where
  "reject e s = (if promise s = Pending then s\<lparr>promise := PromiseRejected e\<rparr> else s)"

text \<open>
  \<^verbatim>\<open>
  if (isLegacy) {
    try {
      const output = await getL2Output(client, parameters)
      unpoll()
      resolve(output)
    } catch (e) {
      const error = e as GetL2OutputErrorType
      if (!(error.cause instanceof ContractFunctionRevertedError)) {
        unpoll()
        reject(e)
      }
    }
  }
  \<close>
\<close>

definition legacy_block :: "collaborators \<Rightarrow> parameters \<Rightarrow> poll_state \<Rightarrow> poll_state" where
  "legacy_block env p s =
     (case getL2Output env (p_l2BlockNumber p) of
        Inr output \<Rightarrow> resolve (OutputFound output) (unpoll s)
      | Inl e \<Rightarrow>
          if \<not> cause_is_reverted (Thrown e) then reject (Thrown e) (unpoll s) else s)"

text \<open>
  \<^verbatim>\<open>
  for (const game of latestGames) {
    const [blockNumber] = decodeAbiParameters([{ type: 'uint256' }], game.extraData)
    if (blockNumber > parameters.l2BlockNumber) {
      match = { ...game, l2BlockNumber: blockNumber }
      unpoll()
      resolve(match)
    }
  }
  \<close>
  There is no \<open>break\<close>: the loop goes on after a match. The result is the state and the
  error thrown by the decoder, if any.
\<close>

fun scan_games ::
  "collaborators \<Rightarrow> uint256 \<Rightarrow> game list \<Rightarrow> poll_state \<Rightarrow> poll_state \<times> error option" where
  "scan_games env l2BlockNumber [] s = (s, None)"
| "scan_games env l2BlockNumber (game # games) s =
     (case decodeAbiParameters_uint256 env (game_extraData game) of
        Inl e \<Rightarrow> (s, Some (Thrown e))
      | Inr blockNumber' \<Rightarrow>
          scan_games env l2BlockNumber games
            (if blockNumber' > l2BlockNumber
             then resolve (GameFound game blockNumber') (unpoll s)
             else s))"

text \<open>
  The \<open>try { ... } catch (e) { unpoll(); reject(e) }\<close> that follows the legacy block.
  The arguments of \<open>findLatestGames\<close> are \<open>gameType\<close>,
  \<open>BigInt(Math.max(0, Number(gameCount - 1n)))\<close> and
  \<open>BigInt(Math.min(100, Number(gameCount)))\<close> (exact for counts below \<open>2^53\<close>).
\<close>

definition current_block ::
  "collaborators \<Rightarrow> parameters \<Rightarrow> address \<Rightarrow> address \<Rightarrow> poll_state \<Rightarrow> poll_state" where
  "current_block env p disputeGameAddress portal s =
     (case gameCount env disputeGameAddress of
        Inl e \<Rightarrow> reject (Thrown e) (unpoll s)
      | Inr count \<Rightarrow>
     (case respectedGameType env portal of
        Inl e \<Rightarrow> reject (Thrown e) (unpoll s)
      | Inr gameType \<Rightarrow>
     (case findLatestGames env disputeGameAddress gameType
             (nat (max 0 (int count - 1))) (min 100 count) of
        Inl e \<Rightarrow> reject (Thrown e) (unpoll s)
      | Inr latestGames \<Rightarrow>
          (case scan_games env (p_l2BlockNumber p) latestGames s of
             (s', Some e) \<Rightarrow> reject e (unpoll s')
           | (s', None) \<Rightarrow> s'))))"

text \<open>
  The polling callback \<open>async ({ unpoll }) => { if (isLegacy) {...} try {...} catch ... }\<close>.
  The legacy block neither returns nor has an \<open>else\<close>: the second block runs after it.
\<close>

definition tick ::
  "parameters \<Rightarrow> bool \<Rightarrow> address \<Rightarrow> address \<Rightarrow> collaborators \<Rightarrow> poll_state \<Rightarrow> poll_state" where
  "tick p isLegacy disputeGameAddress portal env s =
     current_block env p disputeGameAddress portal
       (if isLegacy then legacy_block env p s else s)"

text \<open>
  Modelled from the spec: \<open>poll\<close> is imported from \<open>utils/poll.js\<close>, which is not among the
  source files. The spec (4.3 and 9): a polling loop with the given interval, "an explicit
  state flag (resolved/unresolved) checked at the top of each tick"; once cancelled, no
  further polling tick executes. The list holds the chain as it is at each scheduled tick.
\<close>

fun poll ::
  "(collaborators \<Rightarrow> poll_state \<Rightarrow> poll_state) \<Rightarrow> collaborators list \<Rightarrow> poll_state
   \<Rightarrow> poll_state" where
  "poll fn [] s = s"
| "poll fn (env # envs) s =
     (if active s then poll fn envs (fn env (s\<lparr>ticks := Suc (ticks s)\<rparr>)) else s)"

definition initial_state :: poll_state where
  "initial_state = \<lparr>active = True, promise = Pending, ticks = 0\<rparr>"

text \<open>The \<open>disputeGameAddress\<close> of \<open>waitForNextL2Output\<close>, computed like \<open>portalAddress\<close>.\<close>

definition disputeGameAddress :: "nat option \<Rightarrow> parameters \<Rightarrow> error + address" where
  "disputeGameAddress chain p =
     contract_address (p_disputeGameAddress p) chain
       (map_option contracts_disputeGameFactory (p_targetChain p))"

text \<open>
  \<open>waitForNextL2Output\<close>, run for the scheduled ticks given: an error thrown before the
  promise is created, or the state the polling has reached. \<open>env0\<close> is the chain when the
  function is called; here \<open>chain\<close> is \<open>parameters.chain\<close>, without the default
  \<open>client.chain\<close>. The initial wait \<open>seconds * 1000\<close> delays the first tick and
  changes no state.
\<close>

definition waitForNextL2Output ::
  "collaborators \<Rightarrow> collaborators list \<Rightarrow> parameters \<Rightarrow> error + poll_state" where
  "waitForNextL2Output env0 envs p =
     (case portalAddress (p_chain p) p of
        Inl err \<Rightarrow> Inl err
      | Inr portal \<Rightarrow>
     (case disputeGameAddress (p_chain p) p of
        Inl err \<Rightarrow> Inl err
      | Inr dga \<Rightarrow>
     (case getPortalVersion env0 of
        Inl e \<Rightarrow> Inl (Thrown e)
      | Inr v \<Rightarrow>
     (case (if \<not> major v < 3 then Inr 0 else getTimeToNextL2Output env0) of
        Inl e \<Rightarrow> Inl (Thrown e)
      | Inr seconds \<Rightarrow>
          Inr (poll (tick p (major v < 3) dga portal) envs initial_state)))))"

text \<open>The promise is settled exactly when the polling has been cancelled.\<close>

definition settled_iff_cancelled :: "poll_state \<Rightarrow> bool" where
  "settled_iff_cancelled s = (active s = (promise s = Pending))"

section \<open>Concrete inputs\<close>

text \<open>
  A contract read that reverts with \<open>reason\<close>, in the shape \<open>readContract\<close> raises it:
  a \<open>ContractFunctionExecutionError\<close> whose cause is a \<open>ContractFunctionRevertedError\<close>
  carrying the reason both as \<open>message\<close> and as \<open>data.args[0]\<close>.
\<close>

definition revert_error :: "string \<Rightarrow> js_error" where
  "revert_error reason =
     JsError ''ContractFunctionExecutionError'' reason False None
       (Some (JsError ''ContractFunctionRevertedError'' reason True (Some [reason]) None))"

definition transport_error :: js_error where
  "transport_error = JsError ''HttpRequestError'' ''HTTP request failed.'' False None None"

definition example_withdrawal :: withdrawal where
  "example_withdrawal =
     \<lparr>nonce = 1, sender = 2, target = 3, value_field = 4, gasLimit = 5, data = [6, 7],
      withdrawalHash = 8\<rparr>"

definition example_receipt :: receipt where
  "example_receipt = \<lparr>transactionHash = 9, blockNumber = 10, logs = [0]\<rparr>"

definition empty_receipt :: receipt where
  "empty_receipt = \<lparr>transactionHash = 11, blockNumber = 10, logs = []\<rparr>"

definition example_parameters :: parameters where
  "example_parameters =
     \<lparr>p_portalAddress = Some 12, p_disputeGameAddress = Some 13, p_chain = None,
      client_chain = None, p_targetChain = None, p_receipt = example_receipt,
      p_portalVersion = None, p_l2BlockNumber = 10\<rparr>"

definition example_game :: "nat \<Rightarrow> game" where
  "example_game n =
     \<lparr>game_index = of_nat n, game_metadata = 0, game_timestamp = 0, game_rootClaim = 0,
      game_extraData = be_bytes 32 n\<rparr>"

text \<open>
  A chain on which every read succeeds: a v3 portal, the output of block 10 proposed, the
  withdrawal proven at time 100 and not finalized, \<open>checkWithdrawal\<close> passing. The
  extractor yields one withdrawal for a receipt with logs and none for one without; the
  stand-in for the hash function adds up the bytes; the stand-in for the decoder reads the
  last byte of the first word.
\<close>

definition example_env :: collaborators where
  "example_env =
     \<lparr>getWithdrawals = (\<lambda>r. if logs r = [] then [] else [example_withdrawal]),
      keccak256 = (\<lambda>bs. of_nat (sum_list (map unat bs))),
      getPortalVersion = Inr \<lparr>major = 3, minor = 0, patch = 0\<rparr>,
      getL2Output = (\<lambda>n. Inr \<lparr>outputIndex = 1, outputRoot = 2, output_timestamp = 3,
                                output_l2BlockNumber = n\<rparr>),
      getTimeToFinalize = (\<lambda>h. Inr 0),
      getTimeToNextL2Output = Inr 0,
      provenWithdrawals = (\<lambda>a addr h. Inr (0, 100)),
      finalizedWithdrawals = (\<lambda>a addr h. Inr False),
      checkWithdrawal = (\<lambda>addr h. Inr ()),
      gameCount = (\<lambda>addr. Inr 0),
      respectedGameType = (\<lambda>addr. Inr 0),
      findLatestGames = (\<lambda>addr t start n. Inr []),
      decodeAbiParameters_uint256 =
        (\<lambda>bs. if length bs < 32 then Inl transport_error else Inr (ucast (bs ! 31)))\<rparr>"

text \<open>Variations of the chain above.\<close>

definition env_check_fails :: "js_error \<Rightarrow> collaborators" where
  "env_check_fails e = example_env\<lparr>checkWithdrawal := (\<lambda>addr h. Inl e)\<rparr>"

definition env_output_fails :: "js_error \<Rightarrow> collaborators \<Rightarrow> collaborators" where
  "env_output_fails e env = env\<lparr>getL2Output := (\<lambda>n. Inl e)\<rparr>"

definition env_version :: "int \<Rightarrow> collaborators \<Rightarrow> collaborators" where
  "env_version n env = env\<lparr>getPortalVersion := Inr \<lparr>major = n, minor = 0, patch = 0\<rparr>\<rparr>"

definition env_games :: "game list \<Rightarrow> collaborators \<Rightarrow> collaborators" where
  "env_games gs env =
     env\<lparr>gameCount := (\<lambda>addr. Inr (length gs)), findLatestGames := (\<lambda>addr t start n. Inr gs)\<rparr>"

section \<open>Properties of \<open>walk\<close>\<close>

lemma cause_chain_not_Nil: "cause_chain v \<noteq> []"
  by (induction v rule: cause_chain.induct) simp_all

lemma walk_no_fn_last: "walk err None = last (cause_chain err)"
  by (induction err rule: cause_chain.induct) (simp_all add: cause_chain_not_Nil)

lemma walk_no_fn_innermost: "\<not> has_cause (walk err None)"
  by (induction err rule: cause_chain.induct) simp_all

lemma walk_fn_find:
  "walk err (Some fn) = (case find fn (cause_chain err) of Some e \<Rightarrow> e | None \<Rightarrow> JsNull)"
  by (induction err rule: cause_chain.induct) simp_all

lemma butlast_chain_has_cause: "list_all has_cause (butlast (cause_chain err))"
  by (induction err rule: cause_chain.induct) (simp_all add: cause_chain_not_Nil)

text \<open>
  Claim C10. For an error with a finite cause chain, \<open>walk()\<close> without a predicate returns
  the innermost value of the chain, which is the first value of the chain that has no
  \<open>cause\<close> property (all values before it have one); \<open>walk(fn)\<close> returns the outermost
  value of the chain on which \<open>fn\<close> is true, and \<open>null\<close> when \<open>fn\<close> is true on none.
\<close>

theorem C10_walk_innermost_or_first_match:
  "BaseError_walk a c None = last (cause_chain (JsObject a c))
   \<and> \<not> has_cause (BaseError_walk a c None)
   \<and> list_all has_cause (butlast (cause_chain (JsObject a c)))
   \<and> BaseError_walk a c (Some fn) =
       (case find fn (cause_chain (JsObject a c)) of Some e \<Rightarrow> e | None \<Rightarrow> JsNull)"
  unfolding BaseError_walk_def
  using walk_no_fn_last walk_no_fn_innermost walk_fn_find butlast_chain_has_cause
  by blast

section \<open>Properties of \<open>hashWithdrawal\<close>\<close>

lemma length_be_bytes: "length (be_bytes k n) = k"
  by (induction k arbitrary: n) simp_all

lemma be_bytes_inj: "be_bytes k n = be_bytes k m \<Longrightarrow> n mod 256 ^ k = m mod 256 ^ k"
proof (induction k arbitrary: n m)
  case 0 then show ?case by simp
next
  case (Suc k)
  from Suc.prems have a: "be_bytes k (n div 256) = be_bytes k (m div 256)"
    and b: "(of_nat (n mod 256) :: byte) = of_nat (m mod 256)" by simp_all
  from b have "n mod 256 = m mod 256"
    by (simp add: word_of_nat_eq_iff take_bit_eq_mod)
  moreover from Suc.IH[OF a] have "(n div 256) mod 256 ^ k = (m div 256) mod 256 ^ k" .
  ultimately show ?case
    by (metis mod_mult2_eq power_Suc)
qed

lemma be_bytes_uint256_inj:
  fixes a b :: uint256
  assumes "be_bytes 32 (unat a) = be_bytes 32 (unat b)"
  shows "a = b"
proof -
  have "unat a mod 256 ^ 32 = unat b mod 256 ^ 32" using be_bytes_inj[OF assms] .
  moreover have "unat a < 2 ^ 256" "unat b < 2 ^ 256"
    using unsigned_less[of a, where 'a = nat] unsigned_less[of b, where 'a = nat] by simp_all
  moreover have "(256::nat) ^ 32 = 2 ^ 256" by simp
  ultimately have "unat a = unat b" by simp
  then show ?thesis by (rule word_unat_eq_iff[THEN iffD2])
qed

lemma be_bytes_address_inj:
  fixes a b :: address
  assumes "be_bytes 32 (unat a) = be_bytes 32 (unat b)"
  shows "a = b"
proof -
  have "unat a mod 256 ^ 32 = unat b mod 256 ^ 32" using be_bytes_inj[OF assms] .
  moreover have "unat a < 2 ^ 160" "unat b < 2 ^ 160"
    using unsigned_less[of a, where 'a = nat] unsigned_less[of b, where 'a = nat] by simp_all
  moreover have "(2::nat) ^ 160 \<le> 256 ^ 32" by simp
  ultimately have "unat a = unat b" by (metis less_le_trans mod_less)
  then show ?thesis by (rule word_unat_eq_iff[THEN iffD2])
qed



lemma withdrawal_encoding_unfold:
  "withdrawal_encoding w =
     be_bytes 32 (unat (nonce w)) @ be_bytes 32 (unat (sender w)) @ be_bytes 32 (unat (target w))
     @ be_bytes 32 (unat (value_field w)) @ be_bytes 32 (unat (gasLimit w)) @ be_bytes 32 192
     @ abi_tail (AbiBytes (data w))"
  by (simp add: withdrawal_encoding_def encodeAbiParameters_def del: be_bytes.simps abi_tail.simps(1))


lemma bytes_tail_inj:
  assumes "abi_tail (AbiBytes d) = abi_tail (AbiBytes d')"
  shows "d = d'"
proof -
  let ?p = "\<lambda>n::nat. (32 - n mod 32) mod 32"
  from assms have eq: "be_bytes 32 (length d) @ d @ replicate (?p (length d)) 0
      = be_bytes 32 (length d') @ d' @ replicate (?p (length d')) (0::byte)" by simp
  then have h: "be_bytes 32 (length d) = be_bytes 32 (length d')"
    and t: "d @ replicate (?p (length d)) 0 = d' @ replicate (?p (length d')) (0::byte)"
    by (simp_all add: length_be_bytes)
  from be_bytes_inj[OF h] have m: "length d mod 256 ^ 32 = length d' mod 256 ^ 32" .
  have dv: "(32::nat) dvd 256 ^ 32" by simp
  have "length d mod 256 ^ 32 mod 32 = length d' mod 256 ^ 32 mod 32"
    by (rule arg_cong[OF m])
  then have m32: "length d mod 32 = length d' mod 32"
    by (simp only: mod_mod_cancel[OF dv])
  from t have "length (d @ replicate (?p (length d)) (0::byte)) = length (d' @ replicate (?p (length d')) (0::byte))"
    by simp
  with m32 have "length d = length d'" by simp
  with t show ?thesis by simp
qed


lemma withdrawal_encoding_inj:
  assumes "withdrawal_encoding w = withdrawal_encoding w'"
  shows "six_fields w = six_fields w'"
proof -
  from assms have
    "be_bytes 32 (unat (nonce w)) = be_bytes 32 (unat (nonce w'))
     \<and> be_bytes 32 (unat (sender w)) = be_bytes 32 (unat (sender w'))
     \<and> be_bytes 32 (unat (target w)) = be_bytes 32 (unat (target w'))
     \<and> be_bytes 32 (unat (value_field w)) = be_bytes 32 (unat (value_field w'))
     \<and> be_bytes 32 (unat (gasLimit w)) = be_bytes 32 (unat (gasLimit w'))
     \<and> abi_tail (AbiBytes (data w)) = abi_tail (AbiBytes (data w'))"
    unfolding withdrawal_encoding_unfold
    by (simp add: length_be_bytes del: be_bytes.simps abi_tail.simps)
  then have "nonce w = nonce w' \<and> sender w = sender w' \<and> target w = target w'
     \<and> value_field w = value_field w' \<and> gasLimit w = gasLimit w' \<and> data w = data w'"
    using be_bytes_uint256_inj be_bytes_address_inj bytes_tail_inj by blast
  then show ?thesis
    by (simp add: six_fields_def)
qed

lemma inj_on_pair: "f a \<noteq> f b \<Longrightarrow> inj_on f {a, b}"
  by (auto simp: inj_on_def)

text \<open>
  Claim C9. \<open>hashWithdrawal\<close> is a function of exactly the six fields \<open>nonce\<close>,
  \<open>sender\<close>, \<open>target\<close>, \<open>value\<close>, \<open>gasLimit\<close>, \<open>data\<close>: two records equal on them have
  equal hashes (whatever \<open>withdrawalHash\<close> holds), and where \<open>keccak256\<close> has no collision
  on a set \<open>E\<close> of ABI encodings holding those of both records, records that differ in
  one of the six fields have different hashes.
\<close>

theorem C9_hashWithdrawal_six_fields:
  "(six_fields w = six_fields w' \<longrightarrow> hashWithdrawal keccak w = hashWithdrawal keccak w')
   \<and> (inj_on keccak E \<and> withdrawal_encoding w \<in> E \<and> withdrawal_encoding w' \<in> E
        \<and> six_fields w \<noteq> six_fields w'
      \<longrightarrow> hashWithdrawal keccak w \<noteq> hashWithdrawal keccak w')"
proof (intro conjI impI)
  assume "six_fields w = six_fields w'"
  then show "hashWithdrawal keccak w = hashWithdrawal keccak w'"
    by (simp add: hashWithdrawal_def withdrawal_encoding_def six_fields_def)
next
  assume a: "inj_on keccak E \<and> withdrawal_encoding w \<in> E \<and> withdrawal_encoding w' \<in> E
        \<and> six_fields w \<noteq> six_fields w'"
  show "hashWithdrawal keccak w \<noteq> hashWithdrawal keccak w'"
  proof
    assume "hashWithdrawal keccak w = hashWithdrawal keccak w'"
    with a have "withdrawal_encoding w = withdrawal_encoding w'"
      by (auto simp: hashWithdrawal_def dest: inj_onD)
    with withdrawal_encoding_inj a show False by blast
  qed
qed


theorem C9_hashWithdrawal_six_fields_witness:
  "hashWithdrawal (keccak256 example_env) example_withdrawal
     = hashWithdrawal (keccak256 example_env) (example_withdrawal\<lparr>withdrawalHash := 0\<rparr>)
   \<and> hashWithdrawal (keccak256 example_env) example_withdrawal
     \<noteq> hashWithdrawal (keccak256 example_env) (example_withdrawal\<lparr>nonce := 2\<rparr>)"
proof -
  let ?k = "keccak256 example_env"
  let ?w2 = "example_withdrawal\<lparr>nonce := 2\<rparr>"
  let ?E = "{withdrawal_encoding example_withdrawal, withdrawal_encoding ?w2}"
  have ne: "?k (withdrawal_encoding example_withdrawal) \<noteq> ?k (withdrawal_encoding ?w2)"
    by code_simp
  then have inj: "inj_on ?k ?E"
    by (rule inj_on_pair)
  have same: "six_fields example_withdrawal = six_fields (example_withdrawal\<lparr>withdrawalHash := 0\<rparr>)"
    by (simp add: six_fields_def)
  have diff: "six_fields example_withdrawal \<noteq> six_fields ?w2"
    by (simp add: six_fields_def example_withdrawal_def)
  have mem: "withdrawal_encoding example_withdrawal \<in> ?E" "withdrawal_encoding ?w2 \<in> ?E"
    by blast+
  from C9_hashWithdrawal_six_fields[of example_withdrawal "example_withdrawal\<lparr>withdrawalHash := 0\<rparr>" ?k ?E] same
  have a: "hashWithdrawal ?k example_withdrawal
     = hashWithdrawal ?k (example_withdrawal\<lparr>withdrawalHash := 0\<rparr>)" by blast
  from C9_hashWithdrawal_six_fields[of example_withdrawal ?w2 ?k ?E] inj mem diff
  have b: "hashWithdrawal ?k example_withdrawal \<noteq> hashWithdrawal ?k ?w2" by blast
  from a b show ?thesis by blast
qed

section \<open>Properties of the withdrawal status resolver\<close>

text \<open>
  The theorems of this section are about calls whose portal address resolves, which the
  types of the parameters ensure (\<open>GetContractAddressParameter\<close>: an explicit address or a
  target chain holding one), and they name the version the dispatcher branches on by
  \<open>version_used\<close>: 2 is the v2 path, any other value the v3 path.
\<close>

lemma getWithdrawalStatus_version:
  "version_used env p = Some v \<Longrightarrow>
     fst (getWithdrawalStatus env p) = fst (by_version env p v)"
  by (auto simp: version_used_def getWithdrawalStatus_def split: option.splits sum.splits)

lemma getWithdrawalStatusV3_never_waiting_to_finalize:
  "fst (getWithdrawalStatusV3 env p) \<noteq> Inr WaitingToFinalize"
  by (auto simp: getWithdrawalStatusV3_def classifyV3_def
           split: sum.splits list.splits settled.splits)

text \<open>
  Claim C1, as amended. On the v3 path of \<open>getWithdrawalStatus\<close>, for a withdrawal whose
  output fetch succeeded, whose proven record has a nonzero timestamp and whose finalized
  flag is false: the result is \<open>ready-to-finalize\<close> when the simulated \<open>checkWithdrawal\<close>
  succeeded; and when \<open>checkWithdrawal\<close> failed with anything but a
  \<open>ContractFunctionExecutionError\<close> whose cause's message is in the nine-entry table, the
  call returns no status: it fails with that error (with a \<open>TypeError\<close> when a
  \<open>ContractFunctionExecutionError\<close> carries no cause).
\<close>

theorem C1_v3_finalize_check_outcomes:
  assumes "version_used env p = Some v" and "v \<noteq> 2"
    and "portalAddress (chain_or_client p) p = Inr addr"
    and "getWithdrawals env (p_receipt p) = w # ws"
    and "getL2Output env (blockNumber (p_receipt p)) = Inr out"
    and "provenWithdrawals env portal2Abi addr (withdrawalHash w) = Inr (x, ts)"
    and "ts \<noteq> 0"
    and "finalizedWithdrawals env portal2Abi addr (withdrawalHash w) = Inr False"
  shows "(checkWithdrawal env addr (hashWithdrawal (keccak256 env) w) = Inr () \<longrightarrow>
            fst (getWithdrawalStatus env p) = Inr ReadyToFinalize)
       \<and> (\<forall>e. checkWithdrawal env addr (hashWithdrawal (keccak256 env) w) = Inl e
               \<and> \<not> on_allow_list e \<longrightarrow>
            fst (getWithdrawalStatus env p) =
              Inl (if err_name e = ''ContractFunctionExecutionError'' \<and> err_cause e = None
                   then TypeError else Thrown e))"
  using assms
  by (auto simp: getWithdrawalStatus_version by_version_def getWithdrawalStatusV3_def
        classifyV3_def checkWithdrawal_then_catch_def on_allow_list_def split: option.splits)


theorem C1_v3_finalize_check_outcomes_witness:
  "fst (getWithdrawalStatus example_env example_parameters) = Inr ReadyToFinalize
   \<and> fst (getWithdrawalStatus (env_check_fails (revert_error ''OptimismPortal: paused''))
             example_parameters)
       = Inl (Thrown (revert_error ''OptimismPortal: paused''))"
proof -
  let ?e = "revert_error ''OptimismPortal: paused''"
  let ?env = "env_check_fails ?e"
  have a: "portalAddress (chain_or_client example_parameters) example_parameters = Inr 12"
    by (simp add: portalAddress_def contract_address_def example_parameters_def)
  have v: "version_used example_env example_parameters = Some 3"
    "version_used ?env example_parameters = Some 3"
    by (simp_all add: version_used_def example_env_def example_parameters_def env_check_fails_def)
  have w: "getWithdrawals example_env (p_receipt example_parameters) = example_withdrawal # []"
    "getWithdrawals ?env (p_receipt example_parameters) = example_withdrawal # []"
    by (simp_all add: example_env_def example_parameters_def example_receipt_def
          env_check_fails_def)
  have out: "getL2Output example_env (blockNumber (p_receipt example_parameters))
       = Inr \<lparr>outputIndex = 1, outputRoot = 2, output_timestamp = 3, output_l2BlockNumber = 10\<rparr>"
    "getL2Output ?env (blockNumber (p_receipt example_parameters))
       = Inr \<lparr>outputIndex = 1, outputRoot = 2, output_timestamp = 3, output_l2BlockNumber = 10\<rparr>"
    by (simp_all add: example_env_def example_parameters_def example_receipt_def
          env_check_fails_def)
  have pr: "provenWithdrawals example_env portal2Abi 12 (withdrawalHash example_withdrawal)
       = Inr (0, 100)"
    "provenWithdrawals ?env portal2Abi 12 (withdrawalHash example_withdrawal) = Inr (0, 100)"
    by (simp_all add: example_env_def env_check_fails_def)
  have fin: "finalizedWithdrawals example_env portal2Abi 12 (withdrawalHash example_withdrawal)
       = Inr False"
    "finalizedWithdrawals ?env portal2Abi 12 (withdrawalHash example_withdrawal) = Inr False"
    by (simp_all add: example_env_def env_check_fails_def)
  have ok: "checkWithdrawal example_env 12
       (hashWithdrawal (keccak256 example_env) example_withdrawal) = Inr ()"
    by (simp add: example_env_def)
  have bad: "checkWithdrawal ?env 12 (hashWithdrawal (keccak256 ?env) example_withdrawal) = Inl ?e"
    by (simp add: example_env_def env_check_fails_def)
  have nl: "\<not> on_allow_list ?e"
    by (simp add: on_allow_list_def revert_error_def finalizedWithdrawalMessages_def)
  have c: "err_cause ?e \<noteq> None"
    by (simp add: revert_error_def)
  have ts: "(100::nat) \<noteq> 0" and v3: "(3::int) \<noteq> 2" by simp_all
  from C1_v3_finalize_check_outcomes[OF v(1) v3 a w(1) out(1) pr(1) ts fin(1)] ok
  have r1: "fst (getWithdrawalStatus example_env example_parameters) = Inr ReadyToFinalize"
    by blast
  from C1_v3_finalize_check_outcomes[OF v(2) v3 a w(2) out(2) pr(2) ts fin(2)] bad nl c
  have r2: "fst (getWithdrawalStatus ?env example_parameters) = Inl (Thrown ?e)"
    by simp
  from r1 r2 show ?thesis by blast
qed

theorem C1_unlisted_revert_counterexample:
  "getL2Output (env_check_fails (revert_error ''OptimismPortal: paused''))
       (blockNumber (p_receipt example_parameters))
     = Inr \<lparr>outputIndex = 1, outputRoot = 2, output_timestamp = 3, output_l2BlockNumber = 10\<rparr>
   \<and> provenWithdrawals (env_check_fails (revert_error ''OptimismPortal: paused''))
        portal2Abi 12 (withdrawalHash example_withdrawal) = Inr (0, 100)
   \<and> finalizedWithdrawals (env_check_fails (revert_error ''OptimismPortal: paused''))
        portal2Abi 12 (withdrawalHash example_withdrawal) = Inr False
   \<and> checkWithdrawal (env_check_fails (revert_error ''OptimismPortal: paused'')) 12
        (hashWithdrawal (keccak256 (env_check_fails (revert_error ''OptimismPortal: paused'')))
           example_withdrawal)
       = Inl (revert_error ''OptimismPortal: paused'')
   \<and> ''OptimismPortal: paused'' \<notin> set finalizedWithdrawalMessages
   \<and> getWithdrawalStatus (env_check_fails (revert_error ''OptimismPortal: paused''))
        (example_parameters\<lparr>p_portalVersion := Some 3\<rparr>)
       = (Inl (Thrown (revert_error ''OptimismPortal: paused'')),
          [Read_getL2Output 10, Read_provenWithdrawals portal2Abi 12 8,
           Read_finalizedWithdrawals portal2Abi 12 8, Read_checkWithdrawal 12 222])
   \<and> fst (getWithdrawalStatus (env_check_fails (revert_error ''OptimismPortal: paused''))
        (example_parameters\<lparr>p_portalVersion := Some 3\<rparr>)) \<noteq> Inr WaitingToFinalize"
  by code_simp


text \<open>
  Claim C3, as amended. For a receipt from which the extractor yields no withdrawal: the
  second implementation fails with the "receipt contains no withdrawals" error and issues
  no read; the dispatching implementation does the same when the caller supplies the
  portal version, and otherwise reads the portal version first: it then fails with the
  "no withdrawals" error after that single read, or with the error of that read when it
  fails. No portal or oracle query is issued in any case.
\<close>

theorem C3_no_withdrawals_error_and_reads:
  assumes "getWithdrawals env (p_receipt p) = []"
    and "portalAddress (chain_or_client p) p = Inr addr"
  shows "getWithdrawalStatus_part_000 env p =
           (Inl (ReceiptContainsNoWithdrawalsError (transactionHash (p_receipt p))), [])
       \<and> (\<forall>v. p_portalVersion p = Some v \<longrightarrow>
            getWithdrawalStatus env p =
              (Inl (ReceiptContainsNoWithdrawalsError (transactionHash (p_receipt p))), []))
       \<and> (\<forall>v. p_portalVersion p = None \<and> getPortalVersion env = Inr v \<longrightarrow>
            getWithdrawalStatus env p =
              (Inl (ReceiptContainsNoWithdrawalsError (transactionHash (p_receipt p))),
               [Read_getPortalVersion]))
       \<and> (\<forall>e. p_portalVersion p = None \<and> getPortalVersion env = Inl e \<longrightarrow>
            getWithdrawalStatus env p = (Inl (Thrown e), [Read_getPortalVersion]))"
  using assms
  by (simp add: getWithdrawalStatus_part_000_def getWithdrawalStatus_def by_version_def
        getWithdrawalStatusV2_def getWithdrawalStatusV3_def)

theorem C3_no_withdrawals_error_and_reads_witness:
  "getWithdrawalStatus_part_000 example_env (example_parameters\<lparr>p_receipt := empty_receipt\<rparr>)
     = (Inl (ReceiptContainsNoWithdrawalsError 11), [])
   \<and> getWithdrawalStatus example_env
        (example_parameters\<lparr>p_receipt := empty_receipt, p_portalVersion := Some 3\<rparr>)
     = (Inl (ReceiptContainsNoWithdrawalsError 11), [])
   \<and> getWithdrawalStatus example_env (example_parameters\<lparr>p_receipt := empty_receipt\<rparr>)
     = (Inl (ReceiptContainsNoWithdrawalsError 11), [Read_getPortalVersion])
   \<and> getWithdrawalStatus (example_env\<lparr>getPortalVersion := Inl transport_error\<rparr>)
        (example_parameters\<lparr>p_receipt := empty_receipt\<rparr>)
     = (Inl (Thrown transport_error), [Read_getPortalVersion])"
proof -
  let ?p = "example_parameters\<lparr>p_receipt := empty_receipt\<rparr>"
  let ?p3 = "example_parameters\<lparr>p_receipt := empty_receipt, p_portalVersion := Some 3\<rparr>"
  let ?env = "example_env\<lparr>getPortalVersion := Inl transport_error\<rparr>"
  have w: "getWithdrawals example_env (p_receipt ?p) = []"
    "getWithdrawals example_env (p_receipt ?p3) = []"
    "getWithdrawals ?env (p_receipt ?p) = []"
    by (simp_all add: example_env_def empty_receipt_def)
  have a: "portalAddress (chain_or_client ?p) ?p = Inr 12"
    "portalAddress (chain_or_client ?p3) ?p3 = Inr 12"
    by (simp_all add: portalAddress_def contract_address_def example_parameters_def)
  have h: "transactionHash (p_receipt ?p) = 11" "transactionHash (p_receipt ?p3) = 11"
    by (simp_all add: empty_receipt_def)
  have v: "p_portalVersion ?p = None" "p_portalVersion ?p3 = Some 3"
    "getPortalVersion example_env = Inr \<lparr>major = 3, minor = 0, patch = 0\<rparr>"
    "getPortalVersion ?env = Inl transport_error"
    by (simp_all add: example_parameters_def example_env_def)
  from C3_no_withdrawals_error_and_reads[OF w(1) a(1)] C3_no_withdrawals_error_and_reads[OF w(2) a(2)] C3_no_withdrawals_error_and_reads[OF w(3) a(1)] h v
  show ?thesis by simp
qed

theorem C3_version_read_first_counterexample:
  "getWithdrawals example_env (p_receipt (example_parameters\<lparr>p_receipt := empty_receipt\<rparr>)) = []
   \<and> snd (getWithdrawalStatus example_env (example_parameters\<lparr>p_receipt := empty_receipt\<rparr>))
       = [Read_getPortalVersion]
   \<and> getWithdrawals (example_env\<lparr>getPortalVersion := Inl transport_error\<rparr>)
        (p_receipt (example_parameters\<lparr>p_receipt := empty_receipt\<rparr>)) = []
   \<and> getWithdrawalStatus (example_env\<lparr>getPortalVersion := Inl transport_error\<rparr>)
        (example_parameters\<lparr>p_receipt := empty_receipt\<rparr>)
       = (Inl (Thrown transport_error), [Read_getPortalVersion])"
  by code_simp

text \<open>
  Claim C5, as amended. A \<open>checkWithdrawal\<close> failure that is not recognised from the
  nine-entry table is never mapped to \<open>ready-to-prove\<close>, \<open>waiting-to-finalize\<close>,
  \<open>ready-to-finalize\<close> or \<open>finalized\<close>. On the v3 path the queries are inspected in
  priority order: the call returns \<open>waiting-to-prove\<close> exactly when the output fetch
  failed as "not yet proposed", and it fails with the \<open>checkWithdrawal\<close> error when the
  output fetch, the proven read and the finalized read all succeeded. The second
  implementation returns no status at all for such a failure, and fails with that error
  whenever the version read succeeds with a major version other than 2.
\<close>

theorem C5_unrecognised_check_failure:
  assumes "portalAddress (chain_or_client p) p = Inr addr"
    and "getWithdrawals env (p_receipt p) = w # ws"
    and "checkWithdrawal env addr (hashWithdrawal (keccak256 env) w) = Inl e"
  shows "(\<forall>v. version_used env p = Some v \<and> v \<noteq> 2 \<and> \<not> on_allow_list e \<longrightarrow>
            fst (getWithdrawalStatus env p) \<notin>
              {Inr ReadyToProve, Inr WaitingToFinalize, Inr ReadyToFinalize, Inr Finalized}
          \<and> (fst (getWithdrawalStatus env p) = Inr WaitingToProve) =
              (case getL2Output env (blockNumber (p_receipt p)) of
                 Inl e' \<Rightarrow> not_yet_proposed e' | Inr out \<Rightarrow> False)
          \<and> (succeeds (getL2Output env (blockNumber (p_receipt p)))
               \<and> succeeds (provenWithdrawals env portal2Abi addr (withdrawalHash w))
               \<and> succeeds (finalizedWithdrawals env portal2Abi addr (withdrawalHash w))
              \<longrightarrow> fst (getWithdrawalStatus env p) =
                    Inl (if err_name e = ''ContractFunctionExecutionError'' \<and> err_cause e = None
                         then TypeError else Thrown e)))
       \<and> (\<not> on_allow_list_part_000 e \<longrightarrow>
            fst (getWithdrawalStatus_part_000 env p) \<notin>
              {Inr WaitingToProve, Inr ReadyToProve, Inr WaitingToFinalize, Inr ReadyToFinalize,
               Inr Finalized}
          \<and> (\<forall>v. getPortalVersion env = Inr v \<and> major v \<noteq> 2 \<longrightarrow>
                fst (getWithdrawalStatus_part_000 env p) = Inl (Thrown e)))"
proof (intro conjI allI impI)
  fix v
  assume h: "version_used env p = Some v \<and> v \<noteq> 2 \<and> \<not> on_allow_list e"
  then have r: "checkWithdrawal_then_catch (Inl e) =
      Rejected (if err_name e = ''ContractFunctionExecutionError'' \<and> err_cause e = None
                then TypeError else Thrown e)"
    by (auto simp: checkWithdrawal_then_catch_def on_allow_list_def split: option.splits)
  from h have d: "fst (getWithdrawalStatus env p) = fst (getWithdrawalStatusV3 env p)"
    by (simp add: getWithdrawalStatus_version by_version_def)
  show "fst (getWithdrawalStatus env p) \<notin>
      {Inr ReadyToProve, Inr WaitingToFinalize, Inr ReadyToFinalize, Inr Finalized}"
    unfolding d using assms r
    by (auto simp: getWithdrawalStatusV3_def classifyV3_def split: settled.splits if_splits)
  show "(fst (getWithdrawalStatus env p) = Inr WaitingToProve) =
      (case getL2Output env (blockNumber (p_receipt p)) of
         Inl e' \<Rightarrow> not_yet_proposed e' | Inr out \<Rightarrow> False)"
    unfolding d using assms r
    by (auto simp: getWithdrawalStatusV3_def classifyV3_def not_yet_proposed_def
          split: settled.splits sum.splits)
  show "fst (getWithdrawalStatus env p) =
      Inl (if err_name e = ''ContractFunctionExecutionError'' \<and> err_cause e = None
           then TypeError else Thrown e)"
    if "succeeds (getL2Output env (blockNumber (p_receipt p)))
         \<and> succeeds (provenWithdrawals env portal2Abi addr (withdrawalHash w))
         \<and> succeeds (finalizedWithdrawals env portal2Abi addr (withdrawalHash w))"
    unfolding d using assms r that
    by (auto simp: getWithdrawalStatusV3_def classifyV3_def succeeds_def split: sum.splits)
next
  assume h: "\<not> on_allow_list_part_000 e"
  show "fst (getWithdrawalStatus_part_000 env p) \<notin>
      {Inr WaitingToProve, Inr ReadyToProve, Inr WaitingToFinalize, Inr ReadyToFinalize,
       Inr Finalized}"
    using assms h
    by (auto simp: getWithdrawalStatus_part_000_def on_allow_list_part_000_def
          split: sum.splits option.splits if_splits)
next
  fix v
  assume h: "\<not> on_allow_list_part_000 e" and v: "getPortalVersion env = Inr v \<and> major v \<noteq> 2"
  show "fst (getWithdrawalStatus_part_000 env p) = Inl (Thrown e)"
    using assms h v
    by (auto simp: getWithdrawalStatus_part_000_def on_allow_list_part_000_def
          split: sum.splits option.splits if_splits)
qed


theorem C5_unrecognised_check_failure_witness:
  "fst (getWithdrawalStatus (env_check_fails (revert_error ''OptimismPortal: paused''))
          example_parameters)
     = Inl (Thrown (revert_error ''OptimismPortal: paused''))
   \<and> fst (getWithdrawalStatus_part_000 (env_check_fails (revert_error ''OptimismPortal: paused''))
          example_parameters)
     = Inl (Thrown (revert_error ''OptimismPortal: paused''))"
proof -
  let ?e = "revert_error ''OptimismPortal: paused''"
  let ?env = "env_check_fails ?e"
  have a: "portalAddress (chain_or_client example_parameters) example_parameters = Inr 12"
    by (simp add: portalAddress_def contract_address_def example_parameters_def)
  have w: "getWithdrawals ?env (p_receipt example_parameters) = example_withdrawal # []"
    by (simp add: example_env_def example_parameters_def example_receipt_def
          env_check_fails_def)
  have bad: "checkWithdrawal ?env 12 (hashWithdrawal (keccak256 ?env) example_withdrawal) = Inl ?e"
    by (simp add: example_env_def env_check_fails_def)
  have v: "version_used ?env example_parameters = Some 3 \<and> (3::int) \<noteq> 2 \<and> \<not> on_allow_list ?e"
    by (simp add: version_used_def example_env_def example_parameters_def env_check_fails_def
          on_allow_list_def revert_error_def finalizedWithdrawalMessages_def)
  have ok: "succeeds (getL2Output ?env (blockNumber (p_receipt example_parameters)))
      \<and> succeeds (provenWithdrawals ?env portal2Abi 12 (withdrawalHash example_withdrawal))
      \<and> succeeds (finalizedWithdrawals ?env portal2Abi 12 (withdrawalHash example_withdrawal))"
    by (simp add: succeeds_def example_env_def env_check_fails_def)
  have c: "err_cause ?e \<noteq> None"
    by (simp add: revert_error_def)
  have nl: "\<not> on_allow_list_part_000 ?e"
    by (simp add: on_allow_list_part_000_def revert_error_def finalizedWithdrawalMessages_def)
  have pv: "getPortalVersion ?env = Inr \<lparr>major = 3, minor = 0, patch = 0\<rparr>
      \<and> major \<lparr>major = 3, minor = 0, patch = 0\<rparr> \<noteq> 2"
    by (simp add: example_env_def env_check_fails_def)
  note inst = C5_unrecognised_check_failure[OF a w bad]
  from inst[THEN conjunct1, rule_format, OF v, THEN conjunct2, THEN conjunct2, rule_format, OF ok] c
  have r1: "fst (getWithdrawalStatus ?env example_parameters) = Inl (Thrown ?e)"
    by simp
  from inst[THEN conjunct2, rule_format, OF nl, THEN conjunct2, rule_format, OF pv]
  have r2: "fst (getWithdrawalStatus_part_000 ?env example_parameters) = Inl (Thrown ?e)" .
  from r1 r2 show ?thesis by blast
qed

theorem C5_waiting_to_prove_counterexample:
  "checkWithdrawal
      (env_output_fails (revert_error not_proposed_reason)
         (env_check_fails (revert_error ''OptimismPortal: paused''))) 12
      (hashWithdrawal
         (keccak256 (env_output_fails (revert_error not_proposed_reason)
            (env_check_fails (revert_error ''OptimismPortal: paused''))))
         example_withdrawal)
     = Inl (revert_error ''OptimismPortal: paused'')
   \<and> ''OptimismPortal: paused'' \<notin> set finalizedWithdrawalMessages
   \<and> fst (getWithdrawalStatus
        (env_output_fails (revert_error not_proposed_reason)
           (env_check_fails (revert_error ''OptimismPortal: paused'')))
        example_parameters)
     = Inr WaitingToProve"
  by code_simp

text \<open>
  Claim C6, as amended. In the implementation that fetches the output (the dispatcher with
  \<open>getWithdrawalStatusV2\<close> and \<open>getWithdrawalStatusV3\<close>), for every withdrawal whose output
  fetch reverts with "cannot get output for a block that has not been proposed",
  \<open>getWithdrawalStatus\<close> returns \<open>waiting-to-prove\<close>, whatever the portal version it
  branches on (2 or any other).
\<close>

theorem C6_not_proposed_waiting_to_prove:
  assumes "portalAddress (chain_or_client p) p = Inr addr"
    and "getWithdrawals env (p_receipt p) = w # ws"
    and "getL2Output env (blockNumber (p_receipt p)) = Inl e"
    and "not_yet_proposed e"
    and "version_used env p = Some v"
  shows "fst (getWithdrawalStatus env p) = Inr WaitingToProve"
  using assms
  by (simp add: getWithdrawalStatus_version by_version_def getWithdrawalStatusV2_def
        getWithdrawalStatusV3_def classifyV2_def classifyV3_def not_yet_proposed_def)

theorem C6_not_proposed_waiting_to_prove_witness:
  "fst (getWithdrawalStatus (env_output_fails (revert_error not_proposed_reason) example_env)
          example_parameters) = Inr WaitingToProve
   \<and> fst (getWithdrawalStatus
            (env_output_fails (revert_error not_proposed_reason) (env_version 2 example_env))
            example_parameters) = Inr WaitingToProve"
proof -
  let ?e = "revert_error not_proposed_reason"
  let ?env3 = "env_output_fails ?e example_env"
  let ?env2 = "env_output_fails ?e (env_version 2 example_env)"
  have a: "portalAddress (chain_or_client example_parameters) example_parameters = Inr 12"
    by (simp add: portalAddress_def contract_address_def example_parameters_def)
  have w: "getWithdrawals ?env3 (p_receipt example_parameters) = example_withdrawal # []"
    "getWithdrawals ?env2 (p_receipt example_parameters) = example_withdrawal # []"
    by (simp_all add: example_env_def example_parameters_def example_receipt_def
          env_output_fails_def env_version_def)
  have out: "getL2Output ?env3 (blockNumber (p_receipt example_parameters)) = Inl ?e"
    "getL2Output ?env2 (blockNumber (p_receipt example_parameters)) = Inl ?e"
    by (simp_all add: env_output_fails_def)
  have np: "not_yet_proposed ?e"
    by (simp add: not_yet_proposed_def revert_error_def)
  have v: "version_used ?env3 example_parameters = Some 3"
    "version_used ?env2 example_parameters = Some 2"
    by (simp_all add: version_used_def example_env_def example_parameters_def
          env_output_fails_def env_version_def)
  from C6_not_proposed_waiting_to_prove[OF a w(1) out(1) np v(1)] C6_not_proposed_waiting_to_prove[OF a w(2) out(2) np v(2)]
  show ?thesis by blast
qed

theorem C6_part_000_counterexample:
  "getL2Output
      (env_output_fails (revert_error not_proposed_reason)
         (env_check_fails (revert_error ''OptimismPortal: withdrawal has not been proven yet'')))
      (blockNumber (p_receipt example_parameters))
     = Inl (revert_error not_proposed_reason)
   \<and> not_yet_proposed (revert_error not_proposed_reason)
   \<and> fst (getWithdrawalStatus_part_000
        (env_output_fails (revert_error not_proposed_reason)
           (env_check_fails (revert_error ''OptimismPortal: withdrawal has not been proven yet'')))
        example_parameters)
     = Inr ReadyToProve"
  by code_simp

text \<open>
  Claim C7. For a v2 portal \<open>getWithdrawalStatus\<close> is to follow the legacy decision
  order and return a status. The second implementation, on a v2 portal with every read
  succeeding, throws \<open>Error('add me back')\<close>; the dispatching implementation returns
  \<open>ready-to-finalize\<close> on the same chain.
\<close>

theorem C7_part_000_v2_add_me_back:
  "getPortalVersion (env_version 2 example_env) = Inr \<lparr>major = 2, minor = 0, patch = 0\<rparr>
   \<and> getWithdrawalStatus_part_000 (env_version 2 example_env) example_parameters
     = (Inl (PlainError ''add me back''), [Read_getPortalVersion, Read_checkWithdrawal 12 222])
   \<and> fst (getWithdrawalStatus (env_version 2 example_env) example_parameters)
     = Inr ReadyToFinalize"
  by code_simp

lemma getWithdrawalStatus_part_000_v2_fails:
  assumes "getPortalVersion env = Inr v" and "major v = 2"
  shows "fst (getWithdrawalStatus_part_000 env p) \<notin> range Inr"
  using assms
  by (auto simp: getWithdrawalStatus_part_000_def split: sum.splits list.splits)

lemma getWithdrawalStatus_v2_final_case:
  assumes "version_used env p = Some 2"
    and "portalAddress (chain_or_client p) p = Inr addr"
    and "getWithdrawals env (p_receipt p) = w # ws"
    and "getL2Output env (blockNumber (p_receipt p)) = Inr out"
    and "provenWithdrawals env portalAbi addr (withdrawalHash w) = Inr (x, ts)"
    and "ts \<noteq> 0"
    and "finalizedWithdrawals env portalAbi addr (withdrawalHash w) = Inr False"
    and "getTimeToFinalize env (withdrawalHash w) = Inr seconds"
  shows "fst (getWithdrawalStatus env p) =
           Inr (if seconds > 0 then WaitingToFinalize else ReadyToFinalize)"
  using assms
  by (simp add: getWithdrawalStatus_version by_version_def getWithdrawalStatusV2_def
        classifyV2_def)

section \<open>Properties of \<open>waitForNextL2Output\<close>\<close>

lemma resolve_unpoll_inv:
  "settled_iff_cancelled s \<Longrightarrow> settled_iff_cancelled (resolve v (unpoll s))"
  by (simp add: settled_iff_cancelled_def resolve_def unpoll_def)

lemma reject_unpoll_inv:
  "settled_iff_cancelled s \<Longrightarrow> settled_iff_cancelled (reject e (unpoll s))"
  by (simp add: settled_iff_cancelled_def reject_def unpoll_def)

lemma scan_games_inv:
  "settled_iff_cancelled s \<Longrightarrow> settled_iff_cancelled (fst (scan_games env t gs s))"
  by (induction gs arbitrary: s) (auto simp: resolve_unpoll_inv split: sum.splits)

lemma legacy_block_inv:
  "settled_iff_cancelled s \<Longrightarrow> settled_iff_cancelled (legacy_block env p s)"
  by (auto simp: legacy_block_def resolve_unpoll_inv reject_unpoll_inv split: sum.splits)

lemma current_block_inv:
  assumes "settled_iff_cancelled s"
  shows "settled_iff_cancelled (current_block env p dga portal s)"
proof -
  have "settled_iff_cancelled (fst (scan_games env t gs s))" for t gs
    using assms by (rule scan_games_inv)
  then show ?thesis
    using assms
    by (auto simp: current_block_def reject_unpoll_inv
          split: sum.splits prod.splits option.splits dest!: arg_cong[where f=fst])
qed

lemma tick_inv:
  "settled_iff_cancelled s \<Longrightarrow> settled_iff_cancelled (tick p isLegacy dga portal env s)"
  by (simp add: tick_def current_block_inv legacy_block_inv)

lemma poll_inv:
  assumes "\<And>env s. settled_iff_cancelled s \<Longrightarrow> settled_iff_cancelled (fn env s)"
  shows "settled_iff_cancelled s \<Longrightarrow> settled_iff_cancelled (poll fn envs s)"
proof (induction envs arbitrary: s)
  case Nil
  then show ?case by simp
next
  case (Cons env envs)
  have "settled_iff_cancelled (s\<lparr>ticks := Suc (ticks s)\<rparr>)"
    using Cons.prems by (simp add: settled_iff_cancelled_def)
  then have "settled_iff_cancelled (fn env (s\<lparr>ticks := Suc (ticks s)\<rparr>))"
    by (rule assms)
  then show ?case
    using Cons.IH Cons.prems by simp
qed

lemma poll_cancelled: "\<not> active s \<Longrightarrow> poll fn envs s = s"
  by (cases envs) simp_all

lemma poll_append: "poll fn (envs @ later) s = poll fn later (poll fn envs s)"
  by (induction envs arbitrary: s) (simp_all add: poll_cancelled)

lemma resolve_settled: "promise s \<noteq> Pending \<Longrightarrow> resolve v s = s"
  by (simp add: resolve_def)

lemma reject_settled: "promise s \<noteq> Pending \<Longrightarrow> reject e s = s"
  by (simp add: reject_def)

lemma promise_unpoll: "promise (unpoll s) = promise s"
  by (simp add: unpoll_def)

lemma scan_games_settled:
  "promise s \<noteq> Pending \<Longrightarrow> promise (fst (scan_games env t gs s)) = promise s"
  by (induction gs arbitrary: s)
     (auto simp: resolve_settled promise_unpoll split: sum.splits)

lemma legacy_block_settled:
  "promise s \<noteq> Pending \<Longrightarrow> promise (legacy_block env p s) = promise s"
  by (auto simp: legacy_block_def resolve_settled reject_settled promise_unpoll
        split: sum.splits)

lemma current_block_settled:
  assumes "promise s \<noteq> Pending"
  shows "promise (current_block env p dga portal s) = promise s"
proof -
  have "promise (fst (scan_games env t gs s)) = promise s" for t gs
    using assms by (rule scan_games_settled)
  then show ?thesis
    using assms
    by (auto simp: current_block_def reject_settled promise_unpoll
          split: sum.splits prod.splits option.splits dest!: arg_cong[where f=fst])
qed

lemma tick_settled:
  "promise s \<noteq> Pending \<Longrightarrow> promise (tick p isLegacy dga portal env s) = promise s"
  by (simp add: tick_def current_block_settled legacy_block_settled)

lemma initial_state_inv: "settled_iff_cancelled initial_state"
  by (simp add: settled_iff_cancelled_def initial_state_def)

text \<open>
  Claim C8. In every run of \<open>waitForNextL2Output\<close>, on the legacy and on the current
  branch, the promise is settled exactly when the polling has been cancelled; once it is
  cancelled no later scheduled tick runs and the state (promise and number of ticks run)
  stays as it is; and a callback run on a settled promise leaves the promise as it is.
\<close>

theorem C8_at_most_one_resolution:
  assumes "waitForNextL2Output env0 envs p = Inr s"
  shows "(active s = (promise s = Pending))
       \<and> (\<not> active s \<longrightarrow> waitForNextL2Output env0 (envs @ later) p = Inr s)
       \<and> (promise s \<noteq> Pending \<longrightarrow>
            promise (tick p isLegacy dga portal env s) = promise s)"
proof (intro conjI impI)
  from assms obtain fn where s: "s = poll fn envs initial_state"
    and fn: "\<And>env s. settled_iff_cancelled s \<Longrightarrow> settled_iff_cancelled (fn env s)"
    and later: "\<And>later. waitForNextL2Output env0 (envs @ later) p
                  = Inr (poll fn (envs @ later) initial_state)"
    by (auto simp: waitForNextL2Output_def tick_inv split: sum.splits if_splits)
  from poll_inv[of fn, OF fn initial_state_inv] s
  show "active s = (promise s = Pending)"
    by (simp add: settled_iff_cancelled_def)
  show "waitForNextL2Output env0 (envs @ later) p = Inr s" if "\<not> active s"
    using that s later by (simp add: poll_append poll_cancelled)
  show "promise (tick p isLegacy dga portal env s) = promise s" if "promise s \<noteq> Pending"
    using that by (rule tick_settled)
qed

theorem C8_at_most_one_resolution_witness:
  "waitForNextL2Output example_env
      ([example_env, env_games [example_game 11] example_env] @ [example_env, example_env])
      example_parameters
     = Inr \<lparr>active = False,
            promise = PromiseResolved (GameFound (example_game 11) 11), ticks = 2\<rparr>
   \<and> waitForNextL2Output (env_version 2 example_env)
      ([env_output_fails (revert_error not_proposed_reason) (env_version 2 example_env),
        env_version 2 example_env] @ [env_output_fails transport_error example_env])
      example_parameters
     = Inr \<lparr>active = False,
            promise = PromiseResolved (OutputFound
              \<lparr>outputIndex = 1, outputRoot = 2, output_timestamp = 3,
                 output_l2BlockNumber = 10\<rparr>),
            ticks = 2\<rparr>
   \<and> promise (tick example_parameters False 13 12 (env_games [example_game 12] example_env)
        \<lparr>active = False,
           promise = PromiseResolved (GameFound (example_game 11) 11), ticks = 2\<rparr>)
     = PromiseResolved (GameFound (example_game 11) 11)"
proof -
  let ?s3 = "\<lparr>active = False,
            promise = PromiseResolved (GameFound (example_game 11) 11), ticks = 2\<rparr>"
  let ?s2 = "\<lparr>active = False,
            promise = PromiseResolved (OutputFound
              \<lparr>outputIndex = 1, outputRoot = 2, output_timestamp = 3,
                 output_l2BlockNumber = 10\<rparr>),
            ticks = 2\<rparr>"
  have r3: "waitForNextL2Output example_env
      [example_env, env_games [example_game 11] example_env] example_parameters = Inr ?s3"
    by code_simp
  have r2: "waitForNextL2Output (env_version 2 example_env)
      [env_output_fails (revert_error not_proposed_reason) (env_version 2 example_env),
       env_version 2 example_env] example_parameters = Inr ?s2"
    by code_simp
  have c: "\<not> active ?s3" "\<not> active ?s2" by simp_all
  have d: "promise ?s3 \<noteq> Pending" by simp
  have e: "promise ?s3 = PromiseResolved (GameFound (example_game 11) 11)" by simp
  from C8_at_most_one_resolution[OF r3, THEN conjunct2, THEN conjunct1, rule_format, OF c(1)]
       C8_at_most_one_resolution[OF r2, THEN conjunct2, THEN conjunct1, rule_format, OF c(2)]
       C8_at_most_one_resolution[OF r3, THEN conjunct2, THEN conjunct2, rule_format, OF d,
         of False 13 12 "env_games [example_game 12] example_env"] e
  show ?thesis by simp
qed

lemma scan_games_resolves_iff:
  assumes "\<forall>g\<in>set gs. succeeds (decodeAbiParameters_uint256 env (game_extraData g))"
  shows "snd (scan_games env t gs s) = None
       \<and> (promise (fst (scan_games env t gs s)) \<noteq> Pending) =
           (promise s \<noteq> Pending
            \<or> (\<exists>g\<in>set gs. \<exists>b. decodeAbiParameters_uint256 env (game_extraData g) = Inr b
                    \<and> b > t))"
  using assms
proof (induction gs arbitrary: s)
  case Nil
  then show ?case by simp
next
  case (Cons g gs)
  then obtain b where b: "decodeAbiParameters_uint256 env (game_extraData g) = Inr b"
    by (auto simp: succeeds_def split: sum.splits)
  from Cons.prems have rest:
    "\<forall>g\<in>set gs. succeeds (decodeAbiParameters_uint256 env (game_extraData g))" by simp
  note ih = Cons.IH[OF rest]
  show ?case
    using b ih[of s] ih[of "resolve (GameFound g b) (unpoll s)"]
    by (auto simp: resolve_def unpoll_def)
qed

lemma current_tick_resolves_iff:
  assumes "gameCount env dga = Inr n"
    and "respectedGameType env portal = Inr t"
    and "findLatestGames env dga t (nat (max 0 (int n - 1))) (min 100 n) = Inr gs"
    and "\<forall>g\<in>set gs. succeeds (decodeAbiParameters_uint256 env (game_extraData g))"
    and "promise s = Pending"
  shows "(promise (tick p False dga portal env s) \<noteq> Pending) =
           (\<exists>g\<in>set gs. \<exists>b. decodeAbiParameters_uint256 env (game_extraData g) = Inr b
                \<and> b > p_l2BlockNumber p)"
proof -
  from scan_games_resolves_iff[OF assms(4), of "p_l2BlockNumber p" s] assms(5)
  have "snd (scan_games env (p_l2BlockNumber p) gs s) = None"
    and "(promise (fst (scan_games env (p_l2BlockNumber p) gs s)) \<noteq> Pending) =
           (\<exists>g\<in>set gs. \<exists>b. decodeAbiParameters_uint256 env (game_extraData g) = Inr b
                \<and> b > p_l2BlockNumber p)"
    by simp_all
  then show ?thesis
    using assms(1-3)
    by (cases "scan_games env (p_l2BlockNumber p) gs s")
       (simp add: tick_def current_block_def)
qed

text \<open>
  Claim C2. A tick of the current branch is to resolve with a game of the batch exactly
  when some game's decoded block number is greater than or equal to the target. With the
  target 10 and a batch of one game whose decoded block number is 10, the tick, and the
  run with that one tick, leaves the promise pending and the poller active; with block
  number 11 it resolves.
\<close>

theorem C2_equal_block_number_not_matched:
  "p_l2BlockNumber example_parameters = 10
   \<and> decodeAbiParameters_uint256 example_env (game_extraData (example_game 10)) = Inr 10
   \<and> tick example_parameters False 13 12 (env_games [example_game 10] example_env)
        initial_state = initial_state
   \<and> waitForNextL2Output example_env [env_games [example_game 10] example_env]
        example_parameters
       = Inr \<lparr>active = True, promise = Pending, ticks = 1\<rparr>
   \<and> waitForNextL2Output example_env [env_games [example_game 11] example_env]
        example_parameters
       = Inr \<lparr>active = False, promise = PromiseResolved (GameFound (example_game 11) 11),
              ticks = 1\<rparr>"
  by code_simp

lemma current_block_cancelled:
  assumes "promise s \<noteq> Pending" and "\<not> active s"
  shows "current_block env p dga portal s = s"
proof -
  have u: "unpoll s = s" using assms by (simp add: unpoll_def)
  have scan: "fst (scan_games env t gs s) = s" for t gs
    using assms
    by (induction gs) (auto simp: resolve_settled u split: sum.splits)
  show ?thesis
    using assms scan[of "p_l2BlockNumber p"] u
    by (auto simp: current_block_def reject_settled
          split: sum.splits prod.splits option.splits dest!: arg_cong[where f=fst])
qed

text \<open>
  Claim C4, as amended. On the legacy branch, when the output fetch of a tick fails: if
  the cause of the error is not a \<open>ContractFunctionRevertedError\<close>, the tick cancels the
  polling and rejects the pending promise with that error; if the cause is a revert,
  whatever its reason, the legacy block neither cancels nor rejects.
\<close>

theorem C4_legacy_fetch_failure:
  assumes "getL2Output env (p_l2BlockNumber p) = Inl e"
  shows "(\<not> cause_is_reverted (Thrown e) \<and> promise s = Pending \<longrightarrow>
            tick p True dga portal env s
              = s\<lparr>active := False, promise := PromiseRejected (Thrown e)\<rparr>)
       \<and> (cause_is_reverted (Thrown e) \<longrightarrow> legacy_block env p s = s)"
proof (intro conjI impI)
  assume h: "\<not> cause_is_reverted (Thrown e) \<and> promise s = Pending"
  let ?s' = "s\<lparr>active := False, promise := PromiseRejected (Thrown e)\<rparr>"
  from h assms have l: "legacy_block env p s = ?s'"
    by (simp add: legacy_block_def reject_def unpoll_def)
  have "current_block env p dga portal ?s' = ?s'"
    by (rule current_block_cancelled) simp_all
  with l show "tick p True dga portal env s = ?s'"
    by (simp add: tick_def)
next
  assume "cause_is_reverted (Thrown e)"
  with assms show "legacy_block env p s = s"
    by (simp add: legacy_block_def)
qed

theorem C4_legacy_fetch_failure_witness:
  "tick example_parameters True 13 12 (env_output_fails transport_error example_env)
       initial_state
     = initial_state\<lparr>active := False, promise := PromiseRejected (Thrown transport_error)\<rparr>
   \<and> legacy_block
        (env_output_fails (revert_error ''L2OutputOracle: block number out of range'')
           example_env)
        example_parameters initial_state
     = initial_state"
proof -
  let ?r = "revert_error ''L2OutputOracle: block number out of range''"
  have a: "getL2Output (env_output_fails transport_error example_env)
      (p_l2BlockNumber example_parameters) = Inl transport_error"
    "getL2Output (env_output_fails ?r example_env) (p_l2BlockNumber example_parameters) = Inl ?r"
    by (simp_all add: env_output_fails_def)
  have b: "\<not> cause_is_reverted (Thrown transport_error) \<and> promise initial_state = Pending"
    by (simp add: transport_error_def initial_state_def)
  have c: "cause_is_reverted (Thrown ?r)"
    by (simp add: revert_error_def)
  from C4_legacy_fetch_failure[OF a(1), THEN conjunct1, rule_format, OF b]
       C4_legacy_fetch_failure[OF a(2), THEN conjunct2, rule_format, OF c]
  show ?thesis by blast
qed

theorem C4_other_revert_reason_counterexample:
  "getL2Output
      (env_output_fails (revert_error ''L2OutputOracle: block number out of range'')
         (env_version 2 example_env))
      (p_l2BlockNumber example_parameters)
     = Inl (revert_error ''L2OutputOracle: block number out of range'')
   \<and> ''L2OutputOracle: block number out of range'' \<noteq> not_proposed_reason
   \<and> waitForNextL2Output (env_version 2 example_env)
        [env_output_fails (revert_error ''L2OutputOracle: block number out of range'')
           (env_version 2 example_env),
         env_version 2 example_env]
        example_parameters
     = Inr \<lparr>active = False,
            promise = PromiseResolved (OutputFound
              \<lparr>outputIndex = 1, outputRoot = 2, output_timestamp = 3,
                 output_l2BlockNumber = 10\<rparr>),
            ticks = 2\<rparr>
   \<and> tick example_parameters True 13 12
        (env_output_fails (revert_error ''L2OutputOracle: block number out of range'')
           (env_version 2 example_env))
        initial_state
     = initial_state"
  by code_simp

end
